theory Spec2Isabelle
  imports Main "HOL-Library.Word"
begin

section \<open>JavaScript strings\<close>

text \<open>
  A JavaScript string is a sequence of UTF-16 code units. String literals of the source
  that are plain ASCII are written as HOL strings and converted with \<open>ascii\<close>.
\<close>

type_synonym jsstring = "16 word list"

definition ascii :: "string \<Rightarrow> jsstring" where
  "ascii s = map of_char s"

text \<open>
  \<^verbatim>\<open>String.prototype.trim\<close> strips the ECMAScript \<open>WhiteSpace\<close> and
  \<open>LineTerminator\<close> code points from both ends: TAB, LF, VT, FF, CR, SP, NBSP,
  U+1680, U+2000..U+200A, U+2028, U+2029, U+202F, U+205F, U+3000 and U+FEFF.
\<close>

definition isWhiteSpace :: "16 word \<Rightarrow> bool" where
  "isWhiteSpace c \<longleftrightarrow>
     c = 0x09 \<or> c = 0x0A \<or> c = 0x0B \<or> c = 0x0C \<or> c = 0x0D \<or> c = 0x20 \<or> c = 0xA0 \<or>
     c = 0x1680 \<or> (0x2000 \<le> c \<and> c \<le> 0x200A) \<or> c = 0x2028 \<or> c = 0x2029 \<or>
     c = 0x202F \<or> c = 0x205F \<or> c = 0x3000 \<or> c = 0xFEFF"

definition trim :: "jsstring \<Rightarrow> jsstring" where
  "trim s = rev (dropWhile isWhiteSpace (rev (dropWhile isWhiteSpace s)))"

text \<open>\<^verbatim>\<open>s.startsWith(p)\<close>\<close>

definition startsWith :: "jsstring \<Rightarrow> jsstring \<Rightarrow> bool" where
  "startsWith s p \<longleftrightarrow> take (length p) s = p"

text \<open>
  \<^verbatim>\<open>s.split(sep)\<close> for a one-unit separator: every occurrence cuts, so the result
  has one more piece than there are separators (\<^verbatim>\<open>"".split(",")\<close> is \<^verbatim>\<open>[""]\<close>).
\<close>

fun split :: "16 word \<Rightarrow> jsstring \<Rightarrow> jsstring list" where
  "split sep [] = [[]]"
| "split sep (c # cs) =
     (if c = sep then [] # split sep cs
      else (case split sep cs of
              [] \<Rightarrow> [[c]]
            | p # ps \<Rightarrow> (c # p) # ps))"

text \<open>Indexing an array: \<^verbatim>\<open>xs[i]\<close> is \<^verbatim>\<open>undefined\<close> (here \<open>None\<close>) out of range.\<close>

definition at :: "'a list \<Rightarrow> nat \<Rightarrow> 'a option" where
  "at xs i = (if i < length xs then Some (xs ! i) else None)"

section \<open>Data model\<close>

text \<open>
  A \<^verbatim>\<open>File\<close> as the handlers see it: its name, its declared media type and its size in
  bytes. The bytes themselves are only reachable through a \<^verbatim>\<open>FileReader\<close>.
\<close>

record jsfile =
  fname :: jsstring
  ftype :: jsstring
  fsize :: nat

datatype role = User | Bot

text \<open>
  A transcript entry. The user message carries the \<^verbatim>\<open>images\<close> array; the bot message
  is built without that property (\<open>None\<close>).
\<close>

record message =
  m_role :: role
  m_text :: jsstring
  m_images :: "jsfile list option"

text \<open>The four \<^verbatim>\<open>useState\<close> cells of \<^verbatim>\<open>App\<close> and the value of the file input.\<close>

record app =
  messages :: "message list"
  input :: jsstring
  images :: "jsfile list"
  loading :: bool
  fileRef_value :: jsstring

definition initial :: app where
  "initial = \<lparr>messages = [], input = [], images = [], loading = False, fileRef_value = []\<rparr>"

section \<open>Image handler\<close>

text \<open>
  \<^verbatim>\<open>
  const handleImages = (e) => {
    const valid = [...e.target.files].filter(
      (f) => f.type.startsWith("image/") && f.size <= 5 * 1024 * 1024
    );
    setImages(valid);
    fileRef.current.value = "";
  };
  \<close>
\<close>

definition valid_image :: "jsfile \<Rightarrow> bool" where
  "valid_image f \<longleftrightarrow> startsWith (ftype f) (ascii ''image/'') \<and> fsize f \<le> 5 * 1024 * 1024"

definition handleImages :: "jsfile list \<Rightarrow> app \<Rightarrow> app" where
  "handleImages files s = s\<lparr>images := filter valid_image files, fileRef_value := []\<rparr>"

text \<open>The \<^verbatim>\<open>onChange\<close> handler of the text area: \<^verbatim>\<open>setInput(e.target.value)\<close>.\<close>

definition onChange :: "jsstring \<Rightarrow> app \<Rightarrow> app" where
  "onChange v s = s\<lparr>input := v\<rparr>"

section \<open>The request to the model\<close>

text \<open>
  The template literal of \<^verbatim>\<open>submitToAI\<close>: a line feed, the fixed instructions, the line
  \<^verbatim>\<open>User message:\<close>, then \<^verbatim>\<open>${text || "Prescription uploaded"}\<close> and a final line feed.
\<close>

definition LF :: "16 word" where
  "LF = 0x0A"

definition instructions :: "string list" where
  \<open>instructions =
    [''You are DoctorGPT, a helpful medical assistant.'',
     [],
     ''Your responsibilities:'',
     ''- Explain medical information in simple, clear language'',
     ''- Be calm, supportive, and professional'',
     ''- You may give general medical guidance and explanations'',
     ''- Do NOT claim to replace a licensed doctor'',
     [],
     ''If the user provides ONLY text:'',
     ''- Answer health questions clearly'',
     ''- Give general advice and possible causes'',
     ''- Encourage consulting a doctor when appropriate'',
     [],
     ''If the user provides a prescription image:'',
     ''- Identify medicine names if visible'',
     ''- Explain what each medicine is commonly used for'',
     ''- Mention dosage ONLY if clearly readable'',
     ''- Mention common side effects briefly'',
     ''- Do NOT guess unclear information'',
     [],
     ''Always end with a short disclaimer:'',
     ''"This is for informational purposes only and not a medical diagnosis."'',
     [],
     ''User message:'']\<close>

definition preamble :: jsstring where
  "preamble = LF # concat (map (\<lambda>l. ascii l @ [LF]) instructions)"

definition placeholder :: jsstring where
  "placeholder = ascii ''Prescription uploaded''"

text \<open>\<^verbatim>\<open>text || "Prescription uploaded"\<close>: of all strings only the empty one is falsy.\<close>

definition user_segment :: "jsstring \<Rightarrow> jsstring" where
  "user_segment text = (if text = [] then placeholder else text)"

definition prompt :: "jsstring \<Rightarrow> jsstring" where
  "prompt text = preamble @ user_segment text @ [LF]"

text \<open>
  A part of the request: \<^verbatim>\<open>{ text }\<close> or \<^verbatim>\<open>{ inlineData: { data, mimeType } }\<close>. The data
  is the element at index 1 of a split, which may be \<^verbatim>\<open>undefined\<close>.
\<close>

datatype part = Text jsstring | InlineData "jsstring option" jsstring

text \<open>A thrown value or a rejection reason.\<close>

datatype jserror = JsError jsstring

text \<open>
  What \<^verbatim>\<open>result.response.text()\<close> does on the resolved value of
  \<^verbatim>\<open>model.generateContent\<close>: it returns the reply or throws.
\<close>

type_synonym response = "jserror + jsstring"

text \<open>
  An \<^verbatim>\<open>async\<close> function runs until its next \<^verbatim>\<open>await\<close>, where it hands a request to
  a collaborator outside the program and is resumed with the outcome: \<open>Inl\<close> for a
  rejection, \<open>Inr\<close> for the resolved value. The two collaborators are the
  \<^verbatim>\<open>FileReader\<close> (\<^verbatim>\<open>readAsDataURL\<close>, settled by \<^verbatim>\<open>onload\<close> or \<^verbatim>\<open>onerror\<close>) and the
  model service (\<^verbatim>\<open>model.generateContent\<close>).
\<close>

datatype proc =
    Return jsstring
  | Throw jserror
  | AwaitRead jsfile "jserror + jsstring \<Rightarrow> proc"
  | AwaitGenerate "part list" "jserror + response \<Rightarrow> proc"

text \<open>
  \<^verbatim>\<open>
  const fileToBase64 = (file) =>
    new Promise((resolve, reject) => {
      const reader = new FileReader();
      reader.onload = () => resolve(reader.result.split(",")[1]);
      reader.onerror = reject;
      reader.readAsDataURL(file);
    });
  \<close>
  The caller awaits the promise; \<open>k\<close> is the rest of the caller.
\<close>

definition comma :: "16 word" where
  "comma = 0x2C"

definition fileToBase64 :: "jsfile \<Rightarrow> (jsstring option \<Rightarrow> proc) \<Rightarrow> proc" where
  "fileToBase64 f k =
     AwaitRead f (\<lambda>r. case r of
                          Inl e \<Rightarrow> Throw e
                        | Inr result \<Rightarrow> k (at (split comma result) 1))"

text \<open>
  \<^verbatim>\<open>
  const result = await model.generateContent(parts);
  return result.response.text();
  \<close>
\<close>

definition generate :: "part list \<Rightarrow> proc" where
  "generate parts =
     AwaitGenerate parts (\<lambda>r. case r of
                                  Inl e \<Rightarrow> Throw e
                                | Inr response \<Rightarrow> (case response of
                                                     Inl e \<Rightarrow> Throw e
                                                   | Inr reply \<Rightarrow> Return reply))"

text \<open>
  \<^verbatim>\<open>
  const submitToAI = async ({ text, images }) => {
    const parts = [];
    parts.push({ text: `...${text || "Prescription uploaded"}\n` });
    if (images.length > 0) {
      const base64 = await fileToBase64(images[0]);
      parts.push({ inlineData: { data: base64, mimeType: images[0].type } });
    }
    const result = await model.generateContent(parts);
    return result.response.text();
  };
  \<close>
\<close>

definition submitToAI :: "jsstring \<Rightarrow> jsfile list \<Rightarrow> proc" where
  "submitToAI text imgs =
     (let parts = [Text (prompt text)] in
      if length imgs > 0 then
        fileToBase64 (imgs ! 0)
          (\<lambda>base64. generate (parts @ [InlineData base64 (ftype (imgs ! 0))]))
      else generate parts)"

section \<open>Sending a message\<close>

text \<open>
  \<^verbatim>\<open>
  const send = async () => {
    if (!input.trim() && images.length === 0) return;
    const userMessage = { role: "user", text: input, images };
    setMessages((m) => [...m, userMessage]);
    setInput("");
    setImages([]);
    setLoading(true);
    try {
      const reply = await submitToAI({ text: userMessage.text, images: userMessage.images });
      setMessages((m) => [...m, { role: "bot", text: reply }]);
    } catch {
      setMessages((m) => [...m, { role: "bot", text: "(U+274C) Something went wrong. Please try again." }]);
    } finally {
      setLoading(false);
    }
  };
  \<close>
  \<open>send\<close> is the part that runs when the handler is called, up to the \<^verbatim>\<open>await\<close>: it
  returns the new state and the suspended call, or the state as it was and no call.
  \<open>settle\<close> is the part that runs when the awaited call has settled.
\<close>

definition send :: "app \<Rightarrow> app \<times> proc option" where
  "send s =
     (if trim (input s) = [] \<and> length (images s) = 0 then (s, None)
      else
        let text = input s; imgs = images s;
            userMessage = \<lparr>m_role = User, m_text = text, m_images = Some imgs\<rparr>
        in (s\<lparr>messages := messages s @ [userMessage], input := [], images := [],
                loading := True\<rparr>,
            Some (submitToAI text imgs)))"

text \<open>The literal of the \<^verbatim>\<open>catch\<close> branch starts with U+274C and a space.\<close>

definition failure_text :: jsstring where
  "failure_text = [0x274C, 0x20] @ ascii ''Something went wrong. Please try again.''"

definition bot :: "jsstring \<Rightarrow> message" where
  "bot t = \<lparr>m_role = Bot, m_text = t, m_images = None\<rparr>"

definition settle :: "jserror + jsstring \<Rightarrow> app \<Rightarrow> app" where
  "settle r s =
     (let s' = (case r of
                  Inr reply \<Rightarrow> s\<lparr>messages := messages s @ [bot reply]\<rparr>
                | Inl e \<Rightarrow> s\<lparr>messages := messages s @ [bot failure_text]\<rparr>)
      in s'\<lparr>loading := False\<rparr>)"

section \<open>Running a submission against the collaborators\<close>

text \<open>
  The behaviour of the two collaborators during one submission, and the calls that
  reach them, in order. Every request is taken to settle, by resolving or by rejecting:
  the source sets no timeout, and a request that never settled would leave the
  submission in its in-flight state.
\<close>

record env =
  readAsDataURL :: "jsfile \<Rightarrow> jserror + jsstring"
  generateContent :: "part list \<Rightarrow> jserror + response"

datatype call = Read jsfile | Generate "part list"

primrec run :: "env \<Rightarrow> proc \<Rightarrow> call list \<times> (jserror + jsstring)" where
  "run env (Return t) = ([], Inr t)"
| "run env (Throw e) = ([], Inl e)"
| "run env (AwaitRead f k) =
     (let (cs, r) = run env (k (readAsDataURL env f)) in (Read f # cs, r))"
| "run env (AwaitGenerate ps k) =
     (let (cs, r) = run env (k (generateContent env ps)) in (Generate ps # cs, r))"

text \<open>
  One whole submission with no other handler running before it settles: the state while
  the call is in flight (if there is a call), the final state and the calls made.
\<close>

record outcome =
  in_flight :: "app option"
  final :: app
  calls :: "call list"

definition submit :: "env \<Rightarrow> app \<Rightarrow> outcome" where
  "submit env s =
     (case send s of
        (s1, None) \<Rightarrow> \<lparr>in_flight = None, final = s1, calls = []\<rparr>
      | (s1, Some p) \<Rightarrow>
          (let (cs, r) = run env p
           in \<lparr>in_flight = Some s1, final = settle r s1, calls = cs\<rparr>))"

section \<open>The two triggers of send\<close>

text \<open>
  \<^verbatim>\<open>
  <textarea ... onKeyDown={(e) => {
      if (e.key === "Enter" && !e.shiftKey) { e.preventDefault(); send(); }
  }} />
  <button onClick={send} disabled={loading}>Send</button>
  \<close>
  A disabled button delivers no click, so the button reaches \<open>send\<close> only while the busy
  flag is false. The key handler calls \<open>send\<close> whatever the flag is.
\<close>

definition send_button_onClick :: "app \<Rightarrow> app \<times> proc option" where
  "send_button_onClick s = (if loading s then (s, None) else send s)"

definition onKeyDown :: "jsstring \<Rightarrow> bool \<Rightarrow> app \<Rightarrow> app \<times> proc option" where
  "onKeyDown key shiftKey s =
     (if key = ascii ''Enter'' \<and> \<not> shiftKey then send s else (s, None))"

section \<open>Module set-up\<close>

text \<open>
  \<^verbatim>\<open>
  const genAI = new GoogleGenerativeAI(import.meta.env.VITE_GEMINI_API_KEY);
  const model = genAI.getGenerativeModel({ model: "gemini-2.5-flash-lite" });
  \<close>
  The class and its method come from the package \<^verbatim>\<open>@google/generative-ai\<close>, outside the
  repository, so they are parameters. The key is \<open>None\<close> when the variable is not set
  (\<^verbatim>\<open>undefined\<close>). The module does nothing else with the key.
\<close>

record ('g, 'm) sdk =
  GoogleGenerativeAI :: "jsstring option \<Rightarrow> jserror + 'g"
  getGenerativeModel :: "'g \<Rightarrow> jsstring \<Rightarrow> jserror + 'm"

definition module_init :: "('g, 'm) sdk \<Rightarrow> jsstring option \<Rightarrow> jserror + 'm" where
  "module_init lib key =
     (case GoogleGenerativeAI lib key of
        Inl e \<Rightarrow> Inl e
      | Inr genAI \<Rightarrow> getGenerativeModel lib genAI (ascii ''gemini-2.5-flash-lite''))"

section \<open>Concrete inputs\<close>

text \<open>
  A library whose constructor stores the key it is given and whose
  \<^verbatim>\<open>getGenerativeModel\<close> pairs it with the model name, neither looking at the key.
\<close>

definition storing_sdk :: "(jsstring option, jsstring option \<times> jsstring) sdk" where
  "storing_sdk = \<lparr>GoogleGenerativeAI = (\<lambda>key. Inr key),
                  getGenerativeModel = (\<lambda>genAI name. Inr (genAI, name))\<rparr>"

text \<open>Collaborators that reject every request, and collaborators that answer.\<close>

definition offline :: env where
  "offline = \<lparr>readAsDataURL = (\<lambda>f. Inl (JsError (ascii ''NotReadableError''))),
              generateContent = (\<lambda>ps. Inl (JsError (ascii ''Failed to fetch'')))\<rparr>"

text \<open>The shape of a \<^verbatim>\<open>readAsDataURL\<close> result: media type, then the base64 text.\<close>

definition dataURL :: "jsstring \<Rightarrow> jsstring \<Rightarrow> jsstring" where
  "dataURL mt b64 = ascii ''data:'' @ mt @ ascii '';base64,'' @ b64"

definition online :: env where
  "online = \<lparr>readAsDataURL = (\<lambda>f. Inr (dataURL (ftype f) (ascii ''iVBORw0KGgo=''))),
             generateContent = (\<lambda>ps. Inr (Inr (ascii ''Rest and drink water.'')))\<rparr>"

definition png :: "nat \<Rightarrow> jsfile" where
  "png n = \<lparr>fname = ascii ''scan.png'', ftype = ascii ''image/png'', fsize = n\<rparr>"

definition pdf :: "nat \<Rightarrow> jsfile" where
  "pdf n = \<lparr>fname = ascii ''scan.pdf'', ftype = ascii ''application/pdf'', fsize = n\<rparr>"

definition typed :: "jsstring \<Rightarrow> app" where
  "typed t = onChange t initial"

definition attached :: "jsstring \<Rightarrow> jsfile list \<Rightarrow> app" where
  "attached t fs = handleImages fs (onChange t initial)"

text \<open>The state while a first submission, of the text "hi", is in flight.\<close>

definition awaiting :: app where
  "awaiting = fst (send (typed (ascii ''hi'')))"

text \<open>
  With that submission still in flight, the user types "and?" and presses Enter: the
  new state and the second suspended call.
\<close>

definition overlapped :: "app \<times> proc option" where
  "overlapped = onKeyDown (ascii ''Enter'') False (onChange (ascii ''and?'') awaiting)"

section \<open>Auxiliary facts\<close>

lemma trim_Nil_iff: "trim s = [] \<longleftrightarrow> (\<forall>c\<in>set s. isWhiteSpace c)"
proof
  assume t: "trim s = []"
  have all: "\<forall>x\<in>set (dropWhile isWhiteSpace s). isWhiteSpace x"
    using t by (simp add: trim_def dropWhile_eq_Nil_conv)
  have "dropWhile isWhiteSpace s = []"
  proof (rule ccontr)
    assume ne: "dropWhile isWhiteSpace s \<noteq> []"
    then have "\<not> isWhiteSpace (hd (dropWhile isWhiteSpace s))" by (rule hd_dropWhile)
    moreover have "hd (dropWhile isWhiteSpace s) \<in> set (dropWhile isWhiteSpace s)"
      using ne by simp
    ultimately show False using all by blast
  qed
  then show "\<forall>c\<in>set s. isWhiteSpace c" by simp
next
  assume "\<forall>c\<in>set s. isWhiteSpace c"
  then show "trim s = []" by (auto simp: trim_def dest: set_dropWhileD)
qed

lemma run_generate:
  "run env (generate ps) =
     ([Generate ps], case generateContent env ps of Inl e \<Rightarrow> Inl e | Inr resp \<Rightarrow> resp)"
  by (simp add: generate_def split: sum.splits)

lemma run_submitToAI_no_images:
  "run env (submitToAI text []) =
     ([Generate [Text (prompt text)]],
      case generateContent env [Text (prompt text)] of Inl e \<Rightarrow> Inl e | Inr resp \<Rightarrow> resp)"
  by (simp add: submitToAI_def run_generate)

lemma run_submitToAI_images:
  "run env (submitToAI text (f # fs)) =
     (case readAsDataURL env f of
        Inl e \<Rightarrow> ([Read f], Inl e)
      | Inr url \<Rightarrow>
          ([Read f, Generate [Text (prompt text), InlineData (at (split comma url) 1) (ftype f)]],
           case generateContent env
                  [Text (prompt text), InlineData (at (split comma url) 1) (ftype f)] of
             Inl e \<Rightarrow> Inl e | Inr resp \<Rightarrow> resp))"
  by (simp add: submitToAI_def fileToBase64_def run_generate split: sum.splits)

lemma send_noop: "trim (input s) = [] \<Longrightarrow> images s = [] \<Longrightarrow> send s = (s, None)"
  by (simp add: send_def)

lemma send_valid:
  "\<not> (trim (input s) = [] \<and> images s = []) \<Longrightarrow>
   send s =
     (s\<lparr>messages := messages s @ [\<lparr>m_role = User, m_text = input s, m_images = Some (images s)\<rparr>],
        input := [], images := [], loading := True\<rparr>,
      Some (submitToAI (input s) (images s)))"
  by (simp add: send_def Let_def)

lemma submit_noop:
  "trim (input s) = [] \<Longrightarrow> images s = [] \<Longrightarrow>
   submit env s = \<lparr>in_flight = None, final = s, calls = []\<rparr>"
  by (simp add: submit_def send_noop)

lemma submit_valid:
  assumes "\<not> (trim (input s) = [] \<and> images s = [])"
  shows "submit env s =
           \<lparr>in_flight = Some (fst (send s)),
            final = settle (snd (run env (submitToAI (input s) (images s)))) (fst (send s)),
            calls = fst (run env (submitToAI (input s) (images s)))\<rparr>"
  using assms by (simp add: submit_def send_valid split: prod.splits)

lemma settle_messages:
  "messages (settle r s) =
     messages s @ [bot (case r of Inl e \<Rightarrow> failure_text | Inr reply \<Rightarrow> reply)]"
  by (simp add: settle_def split: sum.splits)

lemma settle_frame:
  "loading (settle r s) = False" "input (settle r s) = input s" "images (settle r s) = images s"
  by (simp_all add: settle_def split: sum.splits)

lemma split_no_sep: "sep \<notin> set s \<Longrightarrow> split sep s = [s]"
  by (induction s) auto

lemma split_append_sep:
  "sep \<notin> set a \<Longrightarrow> split sep (a @ sep # b) = a # split sep b"
  by (induction a) (auto split: list.splits)

lemma fileToBase64_dataURL:
  assumes "comma \<notin> set mt" "comma \<notin> set b64"
  shows "at (split comma (dataURL mt b64)) 1 = Some b64"
proof -
  have c: "comma \<notin> set (ascii ''data:'' @ mt @ ascii '';base64'')"
    using assms(1) by (simp add: ascii_def comma_def)
  have "dataURL mt b64 = (ascii ''data:'' @ mt @ ascii '';base64'') @ comma # b64"
    by (simp add: dataURL_def ascii_def comma_def)
  then have "split comma (dataURL mt b64) = [ascii ''data:'' @ mt @ ascii '';base64'', b64]"
    using split_append_sep [OF c] split_no_sep [OF assms(2)] by simp
  then show ?thesis by (simp add: at_def)
qed

lemma placeholder_not_blank: "\<not> (\<forall>c\<in>set placeholder. isWhiteSpace c)"
  by (simp add: placeholder_def ascii_def isWhiteSpace_def)

lemma typed_simps:
  "messages (typed t) = []" "input (typed t) = t" "images (typed t) = []"
  "loading (typed t) = False"
  by (simp_all add: typed_def onChange_def initial_def)

lemma attached_simps:
  "messages (attached t fs) = []" "input (attached t fs) = t"
  "images (attached t fs) = filter valid_image fs" "loading (attached t fs) = False"
  by (simp_all add: attached_def handleImages_def onChange_def initial_def)

lemma valid_image_png: "valid_image (png n) \<longleftrightarrow> n \<le> 5242880"
  by (simp add: valid_image_def png_def startsWith_def ascii_def)

lemma valid_image_pdf: "\<not> valid_image (pdf n)"
  by (simp add: valid_image_def pdf_def startsWith_def ascii_def)

lemma trim_hi: "trim (ascii ''hi'') \<noteq> []"
  by (simp add: trim_def ascii_def isWhiteSpace_def)

lemma calls_submit_images:
  assumes "images s = f # rest"
  shows "calls (submit env s) =
           Read f # (case readAsDataURL env f of
                       Inl e \<Rightarrow> []
                     | Inr url \<Rightarrow>
                         [Generate [Text (prompt (input s)),
                                    InlineData (at (split comma url) 1) (ftype f)]])"
proof -
  have v: "\<not> (trim (input s) = [] \<and> images s = [])"
    using assms by simp
  show ?thesis
    by (simp add: submit_valid [OF v] assms run_submitToAI_images split: sum.splits)
qed

lemma other_handlers_frame:
  "loading (onChange v s) = loading s" "messages (onChange v s) = messages s"
  "loading (handleImages fs s) = loading s" "messages (handleImages fs s) = messages s"
  by (simp_all add: onChange_def handleImages_def)

section \<open>Claims\<close>

text \<open>
  C1, as stated: whenever the external call of a submission throws or rejects, the bot
  Message appended to the transcript has the text "Something went wrong. Please try
  again.". The code's literal is not that string: here a submission of "hi" with every
  request rejected ends with a bot Message whose text differs from it.
\<close>

theorem failure_text_is_not_the_bare_sentence:
  "snd (run offline (submitToAI (input (typed (ascii ''hi''))) (images (typed (ascii ''hi'')))))
     = Inl (JsError (ascii ''Failed to fetch'')) \<and>
   m_role (last (messages (final (submit offline (typed (ascii ''hi'')))))) = Bot \<and>
   m_text (last (messages (final (submit offline (typed (ascii ''hi''))))))
     \<noteq> ascii ''Something went wrong. Please try again.''"
proof -
  have v: "\<not> (trim (input (typed (ascii ''hi''))) = [] \<and> images (typed (ascii ''hi'')) = [])"
    by (simp add: typed_def onChange_def initial_def trim_def ascii_def isWhiteSpace_def)
  have i: "images (typed (ascii ''hi'')) = []"
    by (simp add: typed_def onChange_def initial_def)
  have r: "snd (run offline (submitToAI (input (typed (ascii ''hi''))) (images (typed (ascii ''hi'')))))
             = Inl (JsError (ascii ''Failed to fetch''))"
    by (simp add: i run_submitToAI_no_images offline_def)
  have l: "last (messages (final (submit offline (typed (ascii ''hi''))))) = bot failure_text"
    by (simp add: submit_valid [OF v] r settle_messages)
  have ne: "failure_text \<noteq> ascii ''Something went wrong. Please try again.''"
    by (simp add: failure_text_def ascii_def)
  show ?thesis
    using r ne by (simp add: l bot_def)
qed

text \<open>
  C1, amended: whenever the external call of a submission throws or rejects, whatever the
  error, the transcript grows by the user Message and then one bot Message whose text is
  exactly the code's fixed failure string, U+274C, a space and "Something went wrong.
  Please try again."; the error itself is not shown.
\<close>

theorem failure_appends_fixed_text:
  assumes "\<not> (trim (input s) = [] \<and> images s = [])"
    and "snd (run env (submitToAI (input s) (images s))) = Inl e"
  shows "messages (final (submit env s)) =
           messages s @
           [\<lparr>m_role = User, m_text = input s, m_images = Some (images s)\<rparr>,
            \<lparr>m_role = Bot,
             m_text = [0x274C, 0x20] @ ascii ''Something went wrong. Please try again.'',
             m_images = None\<rparr>]"
  using assms
  by (simp add: submit_valid settle_messages send_valid bot_def failure_text_def)

theorem failure_appends_fixed_text_witness:
  "\<not> (trim (input (typed (ascii ''hi''))) = [] \<and> images (typed (ascii ''hi'')) = []) \<and>
   snd (run offline (submitToAI (input (typed (ascii ''hi''))) (images (typed (ascii ''hi'')))))
     = Inl (JsError (ascii ''Failed to fetch'')) \<and>
   messages (final (submit offline (typed (ascii ''hi'')))) =
     [\<lparr>m_role = User, m_text = ascii ''hi'', m_images = Some []\<rparr>,
      \<lparr>m_role = Bot,
       m_text = [0x274C, 0x20] @ ascii ''Something went wrong. Please try again.'',
       m_images = None\<rparr>]"
proof -
  have v: "\<not> (trim (input (typed (ascii ''hi''))) = [] \<and> images (typed (ascii ''hi'')) = [])"
    by (simp add: typed_def onChange_def initial_def trim_def ascii_def isWhiteSpace_def)
  have i: "images (typed (ascii ''hi'')) = []"
    by (simp add: typed_def onChange_def initial_def)
  have r: "snd (run offline (submitToAI (input (typed (ascii ''hi''))) (images (typed (ascii ''hi'')))))
             = Inl (JsError (ascii ''Failed to fetch''))"
    by (simp add: i run_submitToAI_no_images offline_def)
  show ?thesis
    using failure_appends_fixed_text [OF v r] v r
    by (simp add: typed_def onChange_def initial_def)
qed

text \<open>
  C2: when the text is empty or consists of white space only and no image is pending,
  submit does nothing: the state, and so the transcript, is as it was, no call is in
  flight and no call was made.
\<close>

theorem blank_submission_is_noop:
  assumes "\<forall>c\<in>set (input s). isWhiteSpace c" and "images s = []"
  shows "send s = (s, None) \<and>
         submit env s = \<lparr>in_flight = None, final = s, calls = []\<rparr>"
  using assms by (simp add: send_noop submit_noop trim_Nil_iff)

theorem blank_submission_is_noop_witness:
  "list_all isWhiteSpace (input (typed (ascii ''  ''))) \<and>
   images (typed (ascii ''  '')) = [] \<and>
   send (typed (ascii ''  '')) = (typed (ascii ''  ''), None) \<and>
   submit online (typed (ascii ''  '')) =
     \<lparr>in_flight = None, final = typed (ascii ''  ''), calls = []\<rparr>"
proof -
  have a: "\<forall>c\<in>set (input (typed (ascii ''  ''))). isWhiteSpace c"
    by (simp add: typed_def onChange_def initial_def ascii_def isWhiteSpace_def)
  have b: "images (typed (ascii ''  '')) = []"
    by (simp add: typed_def onChange_def initial_def)
  show ?thesis
    using blank_submission_is_noop [OF a b, of online] a b by (simp add: list_all_iff)
qed

text \<open>
  C3, as stated: a submission with non-empty text and no images appends one user Message
  and one bot Message. A text of one space is not empty, yet the guard of \<open>send\<close> trims
  it and returns: nothing is appended.
\<close>

theorem one_space_appends_nothing:
  "input (typed (ascii '' '')) \<noteq> [] \<and> images (typed (ascii '' '')) = [] \<and>
   messages (final (submit online (typed (ascii '' '')))) = messages (typed (ascii '' ''))"
proof -
  have t: "trim (input (typed (ascii '' ''))) = []"
    by (simp add: typed_simps trim_def ascii_def isWhiteSpace_def)
  have n: "ascii '' '' \<noteq> []"
    by (simp add: ascii_def)
  show ?thesis
    using n by (simp add: submit_noop [OF t] typed_simps)
qed

text \<open>
  C3, amended: a submission whose text has at least one character that is not white space,
  with no images, appends exactly one user Message and then exactly one bot Message,
  whether the call succeeds (the bot text is the reply) or fails (the bot text is the
  failure string).
\<close>

theorem text_submission_appends_user_then_bot:
  assumes "\<exists>c\<in>set (input s). \<not> isWhiteSpace c" and "images s = []"
  shows "messages (final (submit env s)) =
           messages s @
           [\<lparr>m_role = User, m_text = input s, m_images = Some []\<rparr>,
            \<lparr>m_role = Bot,
             m_text = (case generateContent env [Text (prompt (input s))] of
                         Inr (Inr reply) \<Rightarrow> reply
                       | _ \<Rightarrow> failure_text),
             m_images = None\<rparr>]"
proof -
  have v: "\<not> (trim (input s) = [] \<and> images s = [])"
    using assms(1) by (simp add: trim_Nil_iff)
  show ?thesis
    by (simp add: submit_valid [OF v] send_valid [OF v] assms(2) run_submitToAI_no_images
        settle_messages bot_def split: sum.splits)
qed

theorem text_submission_appends_user_then_bot_witness:
  "(\<exists>c\<in>set (input (typed (ascii ''hi''))). \<not> isWhiteSpace c) \<and>
   images (typed (ascii ''hi'')) = [] \<and>
   messages (final (submit online (typed (ascii ''hi'')))) =
     [\<lparr>m_role = User, m_text = ascii ''hi'', m_images = Some []\<rparr>,
      \<lparr>m_role = Bot, m_text = ascii ''Rest and drink water.'', m_images = None\<rparr>] \<and>
   messages (final (submit offline (typed (ascii ''hi'')))) =
     [\<lparr>m_role = User, m_text = ascii ''hi'', m_images = Some []\<rparr>,
      \<lparr>m_role = Bot, m_text = failure_text, m_images = None\<rparr>]"
proof -
  have a: "\<exists>c\<in>set (input (typed (ascii ''hi''))). \<not> isWhiteSpace c"
    by (simp add: typed_simps ascii_def isWhiteSpace_def)
  have b: "images (typed (ascii ''hi'')) = []"
    by (simp add: typed_simps)
  show ?thesis
    using text_submission_appends_user_then_bot [OF a b, of online]
      text_submission_appends_user_then_bot [OF a b, of offline] a b
    by (simp add: typed_simps online_def offline_def)
qed

text \<open>
  C4: when the text is empty and at least one image is pending, every request that
  reaches the model has as its first part the instructions followed by "Prescription
  uploaded", not by an empty segment; and such a request is made whenever the image can
  be read.
\<close>

theorem empty_text_with_image_uses_placeholder:
  assumes "input s = []" and "images s \<noteq> []"
  shows "(\<forall>ps. Generate ps \<in> set (calls (submit env s)) \<longrightarrow>
            ps ! 0 = Text (preamble @ ascii ''Prescription uploaded'' @ [LF]) \<and>
            ps ! 0 \<noteq> Text (preamble @ [] @ [LF])) \<and>
         (\<forall>url. readAsDataURL env (images s ! 0) = Inr url \<longrightarrow>
            (\<exists>ps. Generate ps \<in> set (calls (submit env s))))"
proof -
  obtain f rest where i: "images s = f # rest"
    using assms(2) by (cases "images s") auto
  have p: "prompt (input s) = preamble @ ascii ''Prescription uploaded'' @ [LF]"
    by (simp add: prompt_def user_segment_def placeholder_def assms(1))
  have n: "ascii ''Prescription uploaded'' \<noteq> []"
    by (simp add: ascii_def)
  show ?thesis
    using n by (auto simp: calls_submit_images [OF i] i p split: sum.splits)
qed

theorem empty_text_with_image_uses_placeholder_witness:
  "input (attached [] [png 2048]) = [] \<and> images (attached [] [png 2048]) \<noteq> [] \<and>
   calls (submit online (attached [] [png 2048])) =
     [Read (png 2048),
      Generate [Text (preamble @ ascii ''Prescription uploaded'' @ [LF]),
                InlineData (Some (ascii ''iVBORw0KGgo='')) (ascii ''image/png'')]]"
proof -
  have a: "input (attached [] [png 2048]) = []"
    by (simp add: attached_simps)
  have i: "images (attached [] [png 2048]) = [png 2048]"
    by (simp add: attached_simps valid_image_png)
  then have b: "images (attached [] [png 2048]) \<noteq> []"
    by simp
  have c: "comma \<notin> set (ascii ''image/png'')" "comma \<notin> set (ascii ''iVBORw0KGgo='')"
    by (simp_all add: ascii_def comma_def)
  have d: "at (split comma (dataURL (ascii ''image/png'') (ascii ''iVBORw0KGgo=''))) 1
             = Some (ascii ''iVBORw0KGgo='')"
    by (rule fileToBase64_dataURL [OF c])
  have t: "ftype (png 2048) = ascii ''image/png''"
    by (simp add: png_def)
  have e: "calls (submit online (attached [] [png 2048])) =
             [Read (png 2048),
              Generate [Text (prompt []),
                        InlineData (Some (ascii ''iVBORw0KGgo='')) (ascii ''image/png'')]]"
    using d by (simp add: calls_submit_images [OF i] a online_def t)
  show ?thesis
    using empty_text_with_image_uses_placeholder [OF a b, of online] a b e
    by simp
qed

text \<open>
  C5: when the pending image list is not empty, the only file handed to the reader is the
  first one, and the request, made when that read succeeds, has exactly two parts: the
  text part and one inline part carrying what \<open>fileToBase64\<close> extracted for the first
  image, with that image's declared media type. For a reader result of the form
  \<open>dataURL mt b64\<close> the extracted data is the base64 text \<open>b64\<close>. The calls are the same
  as if the first image had been the only one.
\<close>

theorem only_first_image_is_sent:
  assumes "images s = f # rest"
  shows "calls (submit env s) =
           Read f # (case readAsDataURL env f of
                       Inl e \<Rightarrow> []
                     | Inr url \<Rightarrow>
                         [Generate [Text (prompt (input s)),
                                    InlineData (at (split comma url) 1) (ftype f)]]) \<and>
         (\<forall>mt b64. comma \<notin> set mt \<and> comma \<notin> set b64 \<and>
                   readAsDataURL env f = Inr (dataURL mt b64) \<longrightarrow>
            calls (submit env s) =
              [Read f, Generate [Text (prompt (input s)), InlineData (Some b64) (ftype f)]]) \<and>
         calls (submit env s) = calls (submit env (s\<lparr>images := [f]\<rparr>))"
proof -
  have one: "images (s\<lparr>images := [f]\<rparr>) = [f]"
    by simp
  have a: "calls (submit env s) = calls (submit env (s\<lparr>images := [f]\<rparr>))"
    by (simp add: calls_submit_images [OF assms] calls_submit_images [OF one] split: sum.splits)
  have b: "calls (submit env s) =
             [Read f, Generate [Text (prompt (input s)), InlineData (Some b64) (ftype f)]]"
    if "comma \<notin> set mt" "comma \<notin> set b64" "readAsDataURL env f = Inr (dataURL mt b64)"
    for mt b64
    using fileToBase64_dataURL [OF that(1,2)] that(3)
    by (simp add: calls_submit_images [OF assms])
  show ?thesis
    using a b calls_submit_images [OF assms, of env] by blast
qed

theorem only_first_image_is_sent_witness:
  "images (attached (ascii ''see'') [png 2048, png 4096, png 8192])
     = png 2048 # [png 4096, png 8192] \<and>
   calls (submit online (attached (ascii ''see'') [png 2048, png 4096, png 8192])) =
     [Read (png 2048),
      Generate [Text (prompt (ascii ''see'')),
                InlineData (Some (ascii ''iVBORw0KGgo='')) (ascii ''image/png'')]]"
proof -
  have i: "images (attached (ascii ''see'') [png 2048, png 4096, png 8192])
             = png 2048 # [png 4096, png 8192]"
    by (simp add: attached_simps valid_image_png)
  have c: "comma \<notin> set (ascii ''image/png'') \<and> comma \<notin> set (ascii ''iVBORw0KGgo='') \<and>
           readAsDataURL online (png 2048)
             = Inr (dataURL (ascii ''image/png'') (ascii ''iVBORw0KGgo=''))"
    by (simp add: ascii_def comma_def online_def png_def)
  have t: "ftype (png 2048) = ascii ''image/png''"
    by (simp add: png_def)
  have "calls (submit online (attached (ascii ''see'') [png 2048, png 4096, png 8192])) =
          [Read (png 2048),
           Generate [Text (prompt (input (attached (ascii ''see'') [png 2048, png 4096, png 8192]))),
                     InlineData (Some (ascii ''iVBORw0KGgo='')) (ftype (png 2048))]]"
    using only_first_image_is_sent [OF i, of online] c by blast
  then show ?thesis
    using i by (simp add: attached_simps t)
qed

text \<open>
  C6: after a file selection the pending image list is the selected files, in order, whose
  media type starts with "image/" and whose size is at most 5 * 1024 * 1024 bytes; so a
  file is in the list exactly when it was selected and passes both tests, an image of
  6 * 1024 * 1024 bytes is never in it and a selected image of 4 * 1024 * 1024 bytes
  always is.
\<close>

theorem handleImages_keeps_valid_images:
  "images (handleImages files s) =
     filter (\<lambda>f. startsWith (ftype f) (ascii ''image/'') \<and> fsize f \<le> 5 * 1024 * 1024) files \<and>
   (f \<in> set (images (handleImages files s)) \<longleftrightarrow>
      f \<in> set files \<and> startsWith (ftype f) (ascii ''image/'') \<and> fsize f \<le> 5 * 1024 * 1024) \<and>
   (fsize f = 6 * 1024 * 1024 \<longrightarrow> f \<notin> set (images (handleImages files s))) \<and>
   (f \<in> set files \<and> startsWith (ftype f) (ascii ''image/'') \<and> fsize f = 4 * 1024 * 1024 \<longrightarrow>
      f \<in> set (images (handleImages files s)))"
proof -
  have v: "valid_image =
             (\<lambda>f. startsWith (ftype f) (ascii ''image/'') \<and> fsize f \<le> 5 * 1024 * 1024)"
    by (rule ext) (simp add: valid_image_def)
  have i: "images (handleImages files s) = filter valid_image files"
    by (simp add: handleImages_def)
  show ?thesis
    unfolding i v by auto
qed

theorem handleImages_keeps_valid_images_witness:
  "fsize (png (6 * 1024 * 1024)) = 6 * 1024 * 1024 \<and>
   png (4 * 1024 * 1024) \<in> set [png (6 * 1024 * 1024), pdf 1024, png (4 * 1024 * 1024)] \<and>
   startsWith (ftype (png (4 * 1024 * 1024))) (ascii ''image/'') \<and>
   fsize (png (4 * 1024 * 1024)) = 4 * 1024 * 1024 \<and>
   png (6 * 1024 * 1024)
     \<notin> set (images (handleImages [png (6 * 1024 * 1024), pdf 1024, png (4 * 1024 * 1024)] initial)) \<and>
   png (4 * 1024 * 1024)
     \<in> set (images (handleImages [png (6 * 1024 * 1024), pdf 1024, png (4 * 1024 * 1024)] initial)) \<and>
   images (handleImages [png (6 * 1024 * 1024), pdf 1024, png (4 * 1024 * 1024)] initial)
     = [png (4 * 1024 * 1024)]"
proof -
  have a: "fsize (png (6 * 1024 * 1024)) = 6 * 1024 * 1024"
    "fsize (png (4 * 1024 * 1024)) = 4 * 1024 * 1024"
    "startsWith (ftype (png (4 * 1024 * 1024))) (ascii ''image/'')"
    by (simp_all add: png_def startsWith_def ascii_def)
  have l: "images (handleImages [png (6 * 1024 * 1024), pdf 1024, png (4 * 1024 * 1024)] initial)
             = [png (4 * 1024 * 1024)]"
    by (simp add: handleImages_def valid_image_png valid_image_pdf)
  show ?thesis
    using handleImages_keeps_valid_images
      [of "[png (6 * 1024 * 1024), pdf 1024, png (4 * 1024 * 1024)]" initial
          "png (6 * 1024 * 1024)"]
      handleImages_keeps_valid_images
      [of "[png (6 * 1024 * 1024), pdf 1024, png (4 * 1024 * 1024)]" initial
          "png (4 * 1024 * 1024)"]
      a l
    by (simp add: png_def)
qed

text \<open>
  A submission that starts with the busy flag false and runs alone: while its call is in
  flight the flag is true, and in its final state the flag is false, on the success and
  failure paths as on the early validation no-op.
\<close>

lemma submission_alone_from_idle:
  assumes "\<not> loading s"
  shows "\<not> loading (final (submit env s))"
    and "in_flight (submit env s) = Some s1 \<Longrightarrow> loading s1"
proof -
  show "\<not> loading (final (submit env s))"
  proof (cases "trim (input s) = [] \<and> images s = []")
    case True
    then show ?thesis using assms by (simp add: submit_noop)
  next
    case False
    then show ?thesis by (simp add: submit_valid settle_frame)
  qed
  show "loading s1" if "in_flight (submit env s) = Some s1"
  proof (cases "trim (input s) = [] \<and> images s = []")
    case True
    then show ?thesis using that by (simp add: submit_noop)
  next
    case False
    then show ?thesis using that by (auto simp: submit_valid send_valid)
  qed
qed

text \<open>
  C7: the busy flag is to be true from the start of a submission until its bot Message is
  appended, and false at the end of every path. The Send button is disabled while the
  flag is true, but the Enter key reaches \<open>send\<close> all the same. With the submission of
  "hi" in flight (flag true) a click on the button does nothing, while Enter on "and?"
  starts a second submission; when the first call then settles, its \<^verbatim>\<open>finally\<close> sets
  the flag false although the second submission is still in flight and its bot Message
  has not been appended.
\<close>

theorem enter_overlap_clears_flag_early:
  "loading awaiting \<and>
   send_button_onClick (onChange (ascii ''and?'') awaiting)
     = (onChange (ascii ''and?'') awaiting, None) \<and>
   snd overlapped = Some (submitToAI (ascii ''and?'') []) \<and>
   loading (fst overlapped) \<and>
   messages (settle (Inr (ascii ''Rest and drink water.'')) (fst overlapped)) =
     [\<lparr>m_role = User, m_text = ascii ''hi'', m_images = Some []\<rparr>,
      \<lparr>m_role = User, m_text = ascii ''and?'', m_images = Some []\<rparr>,
      \<lparr>m_role = Bot, m_text = ascii ''Rest and drink water.'', m_images = None\<rparr>] \<and>
   loading (settle (Inr (ascii ''Rest and drink water.'')) (fst overlapped)) = False"
proof -
  have v: "\<not> (trim (input (typed (ascii ''hi''))) = [] \<and> images (typed (ascii ''hi'')) = [])"
    by (simp add: typed_simps trim_hi)
  have a: "messages awaiting = [\<lparr>m_role = User, m_text = ascii ''hi'', m_images = Some []\<rparr>]"
    "images awaiting = []" "loading awaiting"
    by (simp_all add: awaiting_def send_valid [OF v] typed_simps)
  have t: "trim (ascii ''and?'') \<noteq> []"
    by (simp add: trim_def ascii_def isWhiteSpace_def)
  have w: "\<not> (trim (input (onChange (ascii ''and?'') awaiting)) = [] \<and>
              images (onChange (ascii ''and?'') awaiting) = [])"
    using t by (simp add: onChange_def)
  have i: "input (onChange (ascii ''and?'') awaiting) = ascii ''and?''"
    "images (onChange (ascii ''and?'') awaiting) = []"
    "messages (onChange (ascii ''and?'') awaiting) = messages awaiting"
    using a(2) by (simp_all add: onChange_def)
  have o: "overlapped = send (onChange (ascii ''and?'') awaiting)"
    by (simp add: overlapped_def onKeyDown_def)
  have b: "send_button_onClick (onChange (ascii ''and?'') awaiting)
             = (onChange (ascii ''and?'') awaiting, None)"
    using a(3) by (simp add: send_button_onClick_def onChange_def)
  have m: "messages (fst overlapped) =
             [\<lparr>m_role = User, m_text = ascii ''hi'', m_images = Some []\<rparr>,
              \<lparr>m_role = User, m_text = ascii ''and?'', m_images = Some []\<rparr>]"
    "loading (fst overlapped)"
    "snd overlapped = Some (submitToAI (ascii ''and?'') [])"
    using a i by (simp_all add: o send_valid [OF w])
  show ?thesis
    using a(3) b m by (simp add: settle_messages settle_frame bot_def)
qed

text \<open>
  C8, as stated: with the credential absent the program fails at start-up with a
  diagnostic. The module passes the value to the library's constructor unexamined; with
  a constructor that stores what it is given, start-up succeeds with no key.
\<close>

theorem absent_key_passes_module_init:
  "module_init storing_sdk None = Inr (None, ascii ''gemini-2.5-flash-lite'')"
  by (simp add: module_init_def storing_sdk_def)

text \<open>
  C8, amended: with the credential absent the program makes no check of its own: start-up
  fails exactly when the library's constructor or its \<^verbatim>\<open>getGenerativeModel\<close> throws on the
  absent value, and a later call that is rejected shows only the fixed failure Message.
\<close>

theorem absent_key_is_left_to_the_library:
  "(module_init lib None = Inl e \<longleftrightarrow>
      GoogleGenerativeAI lib None = Inl e \<or>
      (\<exists>genAI. GoogleGenerativeAI lib None = Inr genAI \<and>
               getGenerativeModel lib genAI (ascii ''gemini-2.5-flash-lite'') = Inl e)) \<and>
   (\<not> (trim (input s) = [] \<and> images s = []) \<and>
    snd (run env (submitToAI (input s) (images s))) = Inl err \<longrightarrow>
      last (messages (final (submit env s))) =
        \<lparr>m_role = Bot, m_text = failure_text, m_images = None\<rparr>)"
proof (intro conjI impI)
  show "module_init lib None = Inl e \<longleftrightarrow>
          GoogleGenerativeAI lib None = Inl e \<or>
          (\<exists>genAI. GoogleGenerativeAI lib None = Inr genAI \<and>
                   getGenerativeModel lib genAI (ascii ''gemini-2.5-flash-lite'') = Inl e)"
    by (cases "GoogleGenerativeAI lib None") (simp_all add: module_init_def)
next
  assume a: "\<not> (trim (input s) = [] \<and> images s = []) \<and>
             snd (run env (submitToAI (input s) (images s))) = Inl err"
  then have v: "\<not> (trim (input s) = [] \<and> images s = [])"
    and r: "snd (run env (submitToAI (input s) (images s))) = Inl err"
    by simp_all
  show "last (messages (final (submit env s))) =
          \<lparr>m_role = Bot, m_text = failure_text, m_images = None\<rparr>"
    by (simp add: submit_valid [OF v] r settle_messages bot_def)
qed

theorem absent_key_is_left_to_the_library_witness:
  "\<not> (trim (input (typed (ascii ''hi''))) = [] \<and> images (typed (ascii ''hi'')) = []) \<and>
   snd (run offline (submitToAI (input (typed (ascii ''hi''))) (images (typed (ascii ''hi'')))))
     = Inl (JsError (ascii ''Failed to fetch'')) \<and>
   module_init storing_sdk None \<noteq> Inl (JsError (ascii ''Failed to fetch'')) \<and>
   last (messages (final (submit offline (typed (ascii ''hi''))))) =
     \<lparr>m_role = Bot, m_text = failure_text, m_images = None\<rparr>"
proof -
  have v: "\<not> (trim (input (typed (ascii ''hi''))) = [] \<and> images (typed (ascii ''hi'')) = [])"
    by (simp add: typed_simps trim_hi)
  have r: "snd (run offline (submitToAI (input (typed (ascii ''hi''))) (images (typed (ascii ''hi'')))))
             = Inl (JsError (ascii ''Failed to fetch''))"
    by (simp add: typed_simps run_submitToAI_no_images offline_def)
  have m: "module_init storing_sdk None \<noteq> Inl (JsError (ascii ''Failed to fetch''))"
    by (simp add: module_init_def storing_sdk_def)
  show ?thesis
    using absent_key_is_left_to_the_library
      [of storing_sdk "JsError (ascii ''Failed to fetch'')" "typed (ascii ''hi'')" offline
          "JsError (ascii ''Failed to fetch'')"] v r m
    by simp
qed

text \<open>
  C9: when the text is not empty but all white space and an image is pending, submit goes
  ahead (a call is in flight and the reader is called), and every request to the model has
  as its first part the instructions followed by the text as typed, not by the
  placeholder; such a request is made whenever the image can be read. The placeholder
  stands in for the empty string only: any other text is passed on as it is.
\<close>

theorem blank_text_with_image_is_sent_as_typed:
  assumes "input s \<noteq> []" and "\<forall>c\<in>set (input s). isWhiteSpace c" and "images s \<noteq> []"
  shows "in_flight (submit env s) \<noteq> None \<and>
         hd (calls (submit env s)) = Read (images s ! 0) \<and>
         (\<forall>ps. Generate ps \<in> set (calls (submit env s)) \<longrightarrow>
            ps ! 0 = Text (preamble @ input s @ [LF]) \<and>
            ps ! 0 \<noteq> Text (preamble @ placeholder @ [LF])) \<and>
         (\<forall>url. readAsDataURL env (images s ! 0) = Inr url \<longrightarrow>
            (\<exists>ps. Generate ps \<in> set (calls (submit env s)))) \<and>
         (\<forall>t. t \<noteq> [] \<longrightarrow> user_segment t = t)"
proof -
  obtain f rest where i: "images s = f # rest"
    using assms(3) by (cases "images s") auto
  have v: "\<not> (trim (input s) = [] \<and> images s = [])"
    using assms(3) by simp
  have p: "prompt (input s) = preamble @ input s @ [LF]"
    by (simp add: prompt_def user_segment_def assms(1))
  have n: "input s \<noteq> placeholder"
    using assms(2) placeholder_not_blank by auto
  have a: "in_flight (submit env s) \<noteq> None"
    by (simp add: submit_valid [OF v])
  have b: "\<forall>t. t \<noteq> [] \<longrightarrow> user_segment t = t"
    by (simp add: user_segment_def)
  show ?thesis
    using n a b by (auto simp: calls_submit_images [OF i] i p split: sum.splits)
qed

theorem blank_text_with_image_is_sent_as_typed_witness:
  "input (attached (ascii ''  '') [png 2048]) \<noteq> [] \<and>
   list_all isWhiteSpace (input (attached (ascii ''  '') [png 2048])) \<and>
   images (attached (ascii ''  '') [png 2048]) \<noteq> [] \<and>
   in_flight (submit online (attached (ascii ''  '') [png 2048])) \<noteq> None \<and>
   calls (submit online (attached (ascii ''  '') [png 2048])) =
     [Read (png 2048),
      Generate [Text (preamble @ ascii ''  '' @ [LF]),
                InlineData (Some (ascii ''iVBORw0KGgo='')) (ascii ''image/png'')]]"
proof -
  have a: "input (attached (ascii ''  '') [png 2048]) \<noteq> []"
    by (simp add: attached_simps ascii_def)
  have b: "\<forall>c\<in>set (input (attached (ascii ''  '') [png 2048])). isWhiteSpace c"
    by (simp add: attached_simps ascii_def isWhiteSpace_def)
  have i: "images (attached (ascii ''  '') [png 2048]) = [png 2048]"
    by (simp add: attached_simps valid_image_png)
  then have c: "images (attached (ascii ''  '') [png 2048]) \<noteq> []"
    by simp
  have d: "at (split comma (dataURL (ascii ''image/png'') (ascii ''iVBORw0KGgo=''))) 1
             = Some (ascii ''iVBORw0KGgo='')"
    by (rule fileToBase64_dataURL) (simp_all add: ascii_def comma_def)
  have t: "ftype (png 2048) = ascii ''image/png''"
    by (simp add: png_def)
  have p: "prompt (ascii ''  '') = preamble @ ascii ''  '' @ [LF]"
    by (simp add: prompt_def user_segment_def ascii_def)
  have e: "calls (submit online (attached (ascii ''  '') [png 2048])) =
             [Read (png 2048),
              Generate [Text (preamble @ ascii ''  '' @ [LF]),
                        InlineData (Some (ascii ''iVBORw0KGgo='')) (ascii ''image/png'')]]"
    using d by (simp add: calls_submit_images [OF i] attached_simps online_def t p)
  show ?thesis
    using blank_text_with_image_is_sent_as_typed [OF a b c, of online] a b c e
    by (simp add: list_all_iff)
qed

text \<open>
  C10: for a submission that passes validation, in the state in which the call is in
  flight the pending text and the pending image list are already empty, and they are
  empty in the final state whatever the outcome of the call; the user Message appended
  to the transcript keeps the text and the whole image list as they were.
\<close>

theorem submission_clears_pending_input:
  assumes "\<not> (trim (input s) = [] \<and> images s = [])"
  shows "in_flight (submit env s) =
           Some (s\<lparr>messages :=
                     messages s @
                     [\<lparr>m_role = User, m_text = input s, m_images = Some (images s)\<rparr>],
                   input := [], images := [], loading := True\<rparr>) \<and>
         input (final (submit env s)) = [] \<and>
         images (final (submit env s)) = [] \<and>
         messages (final (submit env s)) ! length (messages s) =
           \<lparr>m_role = User, m_text = input s, m_images = Some (images s)\<rparr>"
  by (simp add: submit_valid [OF assms] send_valid [OF assms] settle_frame settle_messages
      nth_append)

theorem submission_clears_pending_input_witness:
  "\<not> (trim (input (attached (ascii ''see'') [png 2048, png 4096])) = [] \<and>
      images (attached (ascii ''see'') [png 2048, png 4096]) = []) \<and>
   calls (submit offline (attached (ascii ''see'') [png 2048, png 4096])) = [Read (png 2048)] \<and>
   input (final (submit offline (attached (ascii ''see'') [png 2048, png 4096]))) = [] \<and>
   images (final (submit offline (attached (ascii ''see'') [png 2048, png 4096]))) = [] \<and>
   messages (final (submit offline (attached (ascii ''see'') [png 2048, png 4096]))) =
     [\<lparr>m_role = User, m_text = ascii ''see'', m_images = Some [png 2048, png 4096]\<rparr>,
      \<lparr>m_role = Bot, m_text = failure_text, m_images = None\<rparr>]"
proof -
  have i: "images (attached (ascii ''see'') [png 2048, png 4096]) = [png 2048, png 4096]"
    by (simp add: attached_simps valid_image_png)
  have v: "\<not> (trim (input (attached (ascii ''see'') [png 2048, png 4096])) = [] \<and>
              images (attached (ascii ''see'') [png 2048, png 4096]) = [])"
    by (simp add: i)
  have c: "calls (submit offline (attached (ascii ''see'') [png 2048, png 4096]))
             = [Read (png 2048)]"
    by (simp add: calls_submit_images [OF i] offline_def)
  have m: "messages (final (submit offline (attached (ascii ''see'') [png 2048, png 4096]))) =
             [\<lparr>m_role = User, m_text = ascii ''see'', m_images = Some [png 2048, png 4096]\<rparr>,
              \<lparr>m_role = Bot, m_text = failure_text, m_images = None\<rparr>]"
    by (simp add: submit_valid [OF v] send_valid [OF v] settle_messages bot_def i
        run_submitToAI_images offline_def attached_simps(1,2))
  show ?thesis
    using submission_clears_pending_input [OF v, of offline] v c m
    by simp
qed

end
